theory Spec2Isabelle
  imports Main
begin

section \<open>Discord webhook adapter for Alertmanager: the data\<close>

text \<open>
  The source is \<^verbatim>\<open>deploy/observability/alertmanager/discord-webhook-adapter.py\<close>.

  A Python \<^verbatim>\<open>str\<close> is a sequence of Unicode code points: slicing and \<^verbatim>\<open>len\<close>
  count code points, and the title prefixes of the source hold code points beyond one byte.
  A string is therefore a list of code points (natural numbers), and an ASCII literal of
  the source is written \<open>ascii ''...''\<close>.
\<close>

type_synonym codepoint = nat
type_synonym pystr = "codepoint list"

definition ascii :: "string \<Rightarrow> pystr" where
  "ascii s = map of_char s"

text \<open>
  A Python \<^verbatim>\<open>dict\<close> is the list of its items in iteration (insertion) order; its keys
  are distinct. \<^verbatim>\<open>d.get(k, default)\<close> and \<^verbatim>\<open>d[k]\<close> read it; the latter raises
  \<^verbatim>\<open>KeyError\<close> on a missing key.
\<close>

type_synonym ('k, 'v) dict = "('k \<times> 'v) list"

datatype py_error = KeyError pystr

definition dict_get :: "('k, 'v) dict \<Rightarrow> 'k \<Rightarrow> 'v \<Rightarrow> 'v" where
  "dict_get d k dflt = (case map_of d k of None \<Rightarrow> dflt | Some v \<Rightarrow> v)"

definition dict_getitem :: "(pystr, 'v) dict \<Rightarrow> pystr \<Rightarrow> py_error + 'v" where
  "dict_getitem d k = (case map_of d k of None \<Rightarrow> Inl (KeyError k) | Some v \<Rightarrow> Inr v)"

text \<open>
  The slice \<^verbatim>\<open>xs[:n]\<close>: a negative stop counts from the end.
\<close>

definition slice_to :: "'a list \<Rightarrow> int \<Rightarrow> 'a list" where
  "slice_to xs n =
     (if n < 0 then take (nat (int (length xs) + n)) xs else take (nat n) xs)"

text \<open>
  \<^verbatim>\<open>sep.join(parts)\<close>.
\<close>

fun join :: "pystr \<Rightarrow> pystr list \<Rightarrow> pystr" where
  "join sep [] = []"
| "join sep [x] = x"
| "join sep (x # y # ys) = x @ sep @ join sep (y # ys)"

text \<open>
  \<^verbatim>\<open>str(n)\<close> of a non-negative integer, as an f-string renders a \<^verbatim>\<open>len\<close>: its
  decimal digits.
\<close>

fun str_nat :: "nat \<Rightarrow> pystr" where
  "str_nat n = (if n < 10 then [48 + n] else str_nat (n div 10) @ [48 + n mod 10])"

declare str_nat.simps [simp del]

text \<open>
  \<^verbatim>\<open>s.upper()\<close> maps every code point through the full upper-case mapping, which may
  give several code points for one. On ASCII it changes the letters a to z only; the
  mapping of the other code points is the interpreter's Unicode table, a parameter \<open>U\<close>
  here.
\<close>

definition upper_cp :: "(codepoint \<Rightarrow> pystr) \<Rightarrow> codepoint \<Rightarrow> pystr" where
  "upper_cp U c = (if c < 128 then (if 97 \<le> c \<and> c \<le> 122 then [c - 32] else [c]) else U c)"

definition upper :: "(codepoint \<Rightarrow> pystr) \<Rightarrow> pystr \<Rightarrow> pystr" where
  "upper U s = concat (map (upper_cp U) s)"

text \<open>
  An alert of the Alertmanager webhook body. Every key may be absent (\<open>None\<close>);
  \<^verbatim>\<open>labels\<close> and \<^verbatim>\<open>annotations\<close> map strings to strings.
\<close>

record alert =
  a_status :: "pystr option"
  a_labels :: "(pystr, pystr) dict option"
  a_annotations :: "(pystr, pystr) dict option"
  a_startsAt :: "pystr option"

text \<open>
  A field of a Discord embed, and the embed (the notification card).
\<close>

record field =
  f_name :: pystr
  f_value :: pystr
  f_inline :: bool

record embed =
  e_title :: pystr
  e_description :: pystr
  e_color :: nat
  e_fields :: "field list"
  e_timestamp :: pystr

text \<open>
  \<^verbatim>\<open>embed['fields'].append(f)\<close>.
\<close>

definition fields_append :: "embed \<Rightarrow> field \<Rightarrow> embed" where
  "fields_append e f = e\<lparr>e_fields := e_fields e @ [f]\<rparr>"

definition COLORS :: "(pystr, nat) dict" where
  "COLORS =
     [(ascii ''critical'', 0xFF0000),
      (ascii ''warning'', 0xFFA500),
      (ascii ''info'', 0x00FF00),
      (ascii ''resolved'', 0x00FF00)]"

section \<open>format_alert_for_discord\<close>

text \<open>
  \<open>now\<close> is the value of \<^verbatim>\<open>datetime.utcnow().isoformat()\<close> at the call. The only
  operation of the function that can raise on an alert of this type is the subscript
  \<^verbatim>\<open>COLORS[...]\<close>.
\<close>

definition format_alert_for_discord ::
  "(codepoint \<Rightarrow> pystr) \<Rightarrow> pystr \<Rightarrow> alert \<Rightarrow> py_error + embed" where
  "format_alert_for_discord U now alert =
    (let status = (case a_status alert of None \<Rightarrow> ascii ''firing'' | Some s \<Rightarrow> s);
         labels = (case a_labels alert of None \<Rightarrow> [] | Some d \<Rightarrow> d);
         annotations = (case a_annotations alert of None \<Rightarrow> [] | Some d \<Rightarrow> d);
         severity = dict_get labels (ascii ''severity'') (ascii ''info'');
         monitor = dict_get labels (ascii ''monitor'') (ascii ''unknown'');
         alert_name = dict_get labels (ascii ''alertname'') (ascii ''Alert'');
         component = dict_get labels (ascii ''component'') (ascii ''system'')
     in
     case
       (if status = ascii ''resolved'' then
          (case dict_getitem COLORS (ascii ''resolved'') of
             Inl e \<Rightarrow> Inl e
           | Inr c \<Rightarrow> Inr (c, [0x2705] @ ascii '' RESOLVED''))
        else if severity = ascii ''critical'' then
          (case dict_getitem COLORS (ascii ''critical'') of
             Inl e \<Rightarrow> Inl e
           | Inr c \<Rightarrow> Inr (c, [0x1F525] @ ascii '' CRITICAL''))
        else if severity = ascii ''warning'' then
          (case dict_getitem COLORS (ascii ''warning'') of
             Inl e \<Rightarrow> Inl e
           | Inr c \<Rightarrow> Inr (c, [0x26A0, 0xFE0F] @ ascii '' WARNING''))
        else
          (case dict_getitem COLORS (ascii ''info'') of
             Inl e \<Rightarrow> Inl e
           | Inr c \<Rightarrow> Inr (c, [0x2139, 0xFE0F] @ ascii '' INFO'')))
     of
       Inl e \<Rightarrow> Inl e
     | Inr (color_v, title_prefix) \<Rightarrow>
        (let embed0 =
               \<lparr>e_title = title_prefix @ ascii '': '' @ alert_name,
                e_description =
                  dict_get annotations (ascii ''summary'')
                    (ascii ''Alert '' @ alert_name @ ascii '' is '' @ status),
                e_color = color_v,
                e_fields = [],
                e_timestamp = (case a_startsAt alert of None \<Rightarrow> now | Some t \<Rightarrow> t)\<rparr>;
             embed1 =
               (if monitor \<noteq> ascii ''unknown'' then
                  fields_append embed0
                    \<lparr>f_name = ascii ''Monitor'', f_value = monitor, f_inline = True\<rparr>
                else embed0);
             embed2 =
               (if component \<noteq> [] then
                  fields_append embed1
                    \<lparr>f_name = ascii ''Component'', f_value = component, f_inline = True\<rparr>
                else embed1);
             embed3 =
               fields_append embed2
                 \<lparr>f_name = ascii ''Severity'', f_value = upper U severity, f_inline = True\<rparr>;
             description_v = map_of annotations (ascii ''description'');
             embed4 =
               (case description_v of
                  None \<Rightarrow> embed3
                | Some d \<Rightarrow>
                    if d \<noteq> [] then
                      fields_append embed3
                        \<lparr>f_name = ascii ''Details'', f_value = slice_to d 1024,
                          f_inline = False\<rparr>
                    else embed3);
             dashboard = map_of annotations (ascii ''dashboard'');
             embed5 =
               (case dashboard of
                  None \<Rightarrow> embed4
                | Some d \<Rightarrow>
                    if d \<noteq> [] then
                      fields_append embed4
                        \<lparr>f_name = ascii ''Dashboard'',
                          f_value = ascii ''[View Dashboard]('' @ d @ ascii '')'',
                          f_inline = False\<rparr>
                    else embed4);
             other_labels =
               filter (\<lambda>(k, v). k \<notin> set [ascii ''alertname'', ascii ''severity'',
                                            ascii ''monitor'', ascii ''component'']) labels;
             embed6 =
               (if other_labels \<noteq> [] then
                  (let labels_str =
                         join (ascii '', '') (map (\<lambda>(k, v). k @ ascii ''='' @ v) other_labels)
                   in fields_append embed5
                        \<lparr>f_name = ascii ''Labels'', f_value = slice_to labels_str 1024,
                          f_inline = False\<rparr>)
                else embed5)
         in Inr embed6))"

section \<open>send_to_discord\<close>

text \<open>
  The body that is posted. \<^verbatim>\<open>content\<close> is \<open>None\<close> when the key is not set.
\<close>

record payload =
  p_username :: pystr
  p_avatar_url :: pystr
  p_embeds :: "embed list"
  p_content :: "pystr option"

text \<open>
  What the function does to the outside, in order: lines printed to standard output and
  to standard error, and HTTP POST requests (URL and JSON body; the content type header
  and the timeout of ten seconds are the same for every request).
\<close>

datatype event = Stdout pystr | Stderr pystr | HttpPost pystr payload

text \<open>
  The outcome of \<^verbatim>\<open>requests.post\<close> followed by \<^verbatim>\<open>raise_for_status\<close>: either
  the request completed with a success status, or a \<^verbatim>\<open>RequestException\<close> whose text
  is given was raised.
\<close>

datatype post_outcome = Acknowledged | RequestException pystr

text \<open>
  The loops \<^verbatim>\<open>for alert in ...: embeds.append(format_alert_for_discord(alert))\<close>.
  Each call of the formatter reads the clock anew: \<open>clock i\<close> is the reading at the call
  numbered \<open>i\<close> of this dispatch, and the number of calls made so far is the length of
  \<open>embeds\<close>.
\<close>

fun format_loop ::
  "(codepoint \<Rightarrow> pystr) \<Rightarrow> (nat \<Rightarrow> pystr) \<Rightarrow> embed list \<Rightarrow> alert list \<Rightarrow>
   py_error + embed list" where
  "format_loop U clock es [] = Inr es"
| "format_loop U clock es (a # as) =
     (case format_alert_for_discord U (clock (length es)) a of
        Inl e \<Rightarrow> Inl e
      | Inr c \<Rightarrow> format_loop U clock (es @ [c]) as)"

text \<open>
  Lines 119 to 131: the grouping by status and the two loops.
\<close>

definition firing_of :: "alert list \<Rightarrow> alert list" where
  "firing_of alerts = filter (\<lambda>a. a_status a = Some (ascii ''firing'')) alerts"

definition resolved_of :: "alert list \<Rightarrow> alert list" where
  "resolved_of alerts = filter (\<lambda>a. a_status a = Some (ascii ''resolved'')) alerts"

definition build_embeds ::
  "(codepoint \<Rightarrow> pystr) \<Rightarrow> (nat \<Rightarrow> pystr) \<Rightarrow> alert list \<Rightarrow> py_error + embed list" where
  "build_embeds U clock alerts =
     (let firing = firing_of alerts;
          resolved = resolved_of alerts
      in case format_loop U clock [] (slice_to firing 10) of
           Inl e \<Rightarrow> Inl e
         | Inr es \<Rightarrow> format_loop U clock es (slice_to resolved (10 - int (length es))))"

text \<open>
  Lines 143 to 153: the summary parts and the \<^verbatim>\<open>content\<close> key.
\<close>

definition summary_parts :: "nat \<Rightarrow> nat \<Rightarrow> pystr list" where
  "summary_parts firing_count resolved_count =
     (let parts0 = [];
          parts1 =
            (if firing_count \<noteq> 0 then
               parts0 @ [[0x1F525] @ ascii '' '' @ str_nat firing_count @ ascii '' alert'' @
                         (if firing_count \<noteq> 1 then ascii ''s'' else []) @ ascii '' firing'']
             else parts0);
          parts2 =
            (if resolved_count \<noteq> 0 then
               parts1 @ [[0x2705] @ ascii '' '' @ str_nat resolved_count @ ascii '' resolved'']
             else parts1)
      in parts2)"

definition send_to_discord ::
  "(codepoint \<Rightarrow> pystr) \<Rightarrow> (nat \<Rightarrow> pystr) \<Rightarrow> (pystr \<Rightarrow> payload \<Rightarrow> post_outcome) \<Rightarrow>
   pystr \<Rightarrow> alert list \<Rightarrow> (py_error + bool) \<times> event list" where
  "send_to_discord U clock net webhook_url alerts =
     (if webhook_url = [] then
        (Inr False, [Stderr (ascii ''ERROR: DISCORD_WEBHOOK_URL not configured'')])
      else
        (case build_embeds U clock alerts of
           Inl e \<Rightarrow> (Inl e, [])
         | Inr es \<Rightarrow>
            if es = [] then (Inr True, [])
            else
              (let payload0 =
                     \<lparr>p_username = ascii ''Hall Monitor Alerts'',
                      p_avatar_url = ascii ''https://raw.githubusercontent.com/prometheus/prometheus/main/documentation/images/prometheus-logo.svg'',
                      p_embeds = es,
                      p_content = None\<rparr>;
                   firing_count = length (firing_of alerts);
                   resolved_count = length (resolved_of alerts);
                   parts = summary_parts firing_count resolved_count;
                   payload1 =
                     (if parts \<noteq> [] then payload0\<lparr>p_content := Some (join (ascii '' | '') parts)\<rparr>
                      else payload0)
               in case net webhook_url payload1 of
                    Acknowledged \<Rightarrow>
                      (Inr True,
                       [HttpPost webhook_url payload1,
                        Stdout (ascii ''Successfully sent '' @ str_nat (length es) @
                                ascii '' alerts to Discord'')])
                  | RequestException msg \<Rightarrow>
                      (Inr False,
                       [HttpPost webhook_url payload1,
                        Stderr (ascii ''ERROR sending to Discord: '' @ msg)]))))"

section \<open>Notions used in the statements\<close>

text \<open>
  \<^verbatim>\<open>d.setdefault(k, v)\<close>: the key is added at the end when it is missing.
\<close>

definition dict_setdefault :: "('k, 'v) dict \<Rightarrow> 'k \<Rightarrow> 'v \<Rightarrow> ('k, 'v) dict" where
  "dict_setdefault d k v = (if map_of d k = None then d @ [(k, v)] else d)"

text \<open>
  The documented defaults of the translation (specification, 4.1, steps 1 and 5), written
  into the alert: status \<^verbatim>\<open>firing\<close>, the labels severity \<^verbatim>\<open>info\<close>, monitor
  \<^verbatim>\<open>unknown\<close>, alertname \<^verbatim>\<open>Alert\<close> and component \<^verbatim>\<open>system\<close>, no
  annotations, and the current time for \<^verbatim>\<open>startsAt\<close>.
\<close>

definition spec_with_defaults :: "pystr \<Rightarrow> alert \<Rightarrow> alert" where
  "spec_with_defaults now a =
     \<lparr>a_status = Some (case a_status a of None \<Rightarrow> ascii ''firing'' | Some s \<Rightarrow> s),
      a_labels = Some
        (dict_setdefault
          (dict_setdefault
            (dict_setdefault
              (dict_setdefault (case a_labels a of None \<Rightarrow> [] | Some d \<Rightarrow> d)
                (ascii ''severity'') (ascii ''info''))
              (ascii ''monitor'') (ascii ''unknown''))
            (ascii ''alertname'') (ascii ''Alert''))
          (ascii ''component'') (ascii ''system'')),
      a_annotations = Some (case a_annotations a of None \<Rightarrow> [] | Some d \<Rightarrow> d),
      a_startsAt = Some (case a_startsAt a of None \<Rightarrow> now | Some t \<Rightarrow> t)\<rparr>"

text \<open>
  Concrete surroundings for the examples: an upper-case table that leaves the code points
  beyond ASCII alone, a clock that stands still, a destination that acknowledges every
  request, and a destination URL.
\<close>

definition plain_table :: "codepoint \<Rightarrow> pystr" where
  "plain_table c = [c]"

definition still_clock :: "nat \<Rightarrow> pystr" where
  "still_clock i = ascii ''2024-05-01T12:00:00''"

definition net_ok :: "pystr \<Rightarrow> payload \<Rightarrow> post_outcome" where
  "net_ok url p = Acknowledged"

definition hook_url :: pystr where
  "hook_url = ascii ''https://discord.example/api/webhooks/1/x''"

text \<open>
  An alert that has a status and the label \<^verbatim>\<open>alertname\<close> only.
\<close>

definition named_alert :: "string \<Rightarrow> string \<Rightarrow> alert" where
  "named_alert st nm =
     \<lparr>a_status = Some (ascii st), a_labels = Some [(ascii ''alertname'', ascii nm)],
      a_annotations = None, a_startsAt = None\<rparr>"

text \<open>
  A text of 1025 code points (the letter a), and three batches of alerts in which the
  resolved and the firing ones are mixed: twelve firing and three resolved, three firing
  and three resolved, eight firing and four resolved.
\<close>

definition long_text :: pystr where
  "long_text = replicate 1025 97"

definition batch_12_3 :: "alert list" where
  "batch_12_3 =
     [named_alert ''resolved'' ''r1'',
      named_alert ''firing'' ''f01'', named_alert ''firing'' ''f02'',
      named_alert ''firing'' ''f03'', named_alert ''firing'' ''f04'',
      named_alert ''firing'' ''f05'', named_alert ''firing'' ''f06'',
      named_alert ''resolved'' ''r2'',
      named_alert ''firing'' ''f07'', named_alert ''firing'' ''f08'',
      named_alert ''firing'' ''f09'', named_alert ''firing'' ''f10'',
      named_alert ''firing'' ''f11'', named_alert ''firing'' ''f12'',
      named_alert ''resolved'' ''r3'']"

definition batch_3_3 :: "alert list" where
  "batch_3_3 =
     [named_alert ''resolved'' ''r1'', named_alert ''firing'' ''f1'',
      named_alert ''resolved'' ''r2'', named_alert ''firing'' ''f2'',
      named_alert ''firing'' ''f3'', named_alert ''resolved'' ''r3'']"

definition batch_8_4 :: "alert list" where
  "batch_8_4 =
     [named_alert ''resolved'' ''r1'',
      named_alert ''firing'' ''f1'', named_alert ''firing'' ''f2'',
      named_alert ''resolved'' ''r2'',
      named_alert ''firing'' ''f3'', named_alert ''firing'' ''f4'',
      named_alert ''firing'' ''f5'',
      named_alert ''resolved'' ''r3'',
      named_alert ''firing'' ''f6'', named_alert ''firing'' ''f7'',
      named_alert ''firing'' ''f8'',
      named_alert ''resolved'' ''r4'']"

section \<open>Strings and dictionaries\<close>

lemma length_ascii [simp]: "length (ascii s) = length s"
  by (simp add: ascii_def)

lemma ascii_append: "ascii (s @ t) = ascii s @ ascii t"
  by (simp add: ascii_def)

lemma ascii_join [simp]:
  "ascii s @ ascii t = ascii (s @ t)"
  "ascii s @ ascii t @ r = ascii (s @ t) @ r"
  by (simp_all add: ascii_def)

lemma ascii_Nil [simp]: "ascii [] = []" "ascii s = [] \<longleftrightarrow> s = []" "[] = ascii s \<longleftrightarrow> s = []"
  by (auto simp add: ascii_def)

lemma ascii_eq_iff [simp]: "ascii s = ascii t \<longleftrightarrow> s = t"
  unfolding ascii_def by (rule inj_map_eq_map) (rule inj_of_char)
section \<open>The formatter in closed form\<close>

lemma COLORS_at:
  "dict_getitem COLORS (ascii ''resolved'') = Inr 0x00FF00"
  "dict_getitem COLORS (ascii ''critical'') = Inr 0xFF0000"
  "dict_getitem COLORS (ascii ''warning'') = Inr 0xFFA500"
  "dict_getitem COLORS (ascii ''info'') = Inr 0x00FF00"
  by (simp_all add: dict_getitem_def COLORS_def)

lemma fields_append_if:
  "(if c then fields_append r x else r) = e_fields_update (\<lambda>fs. fs @ (if c then [x] else [])) r"
  by (simp add: fields_append_def)

lemma fields_append_always:
  "fields_append r x = e_fields_update (\<lambda>fs. fs @ [x]) r"
  by (simp add: fields_append_def)

lemma fields_update_case:
  "(case ov of None \<Rightarrow> r | Some d \<Rightarrow> e_fields_update (\<lambda>fs. fs @ g d) r) =
   e_fields_update (\<lambda>fs. fs @ (case ov of None \<Rightarrow> [] | Some d \<Rightarrow> g d)) r"
  by (simp split: option.split)

lemma if_Inr: "(if c then Inr x else (Inr y :: 'a + 'b)) = Inr (if c then x else y)"
  by simp

lemma if_Pair: "(if c then (x, y) else (x', y')) = (if c then x else x', if c then y else y')"
  by simp

lemma format_unfold:
  fixes U now a
  defines "status \<equiv> (case a_status a of None \<Rightarrow> ascii ''firing'' | Some s \<Rightarrow> s)"
  defines "labels \<equiv> (case a_labels a of None \<Rightarrow> [] | Some d \<Rightarrow> d)"
  defines "annotations \<equiv> (case a_annotations a of None \<Rightarrow> [] | Some d \<Rightarrow> d)"
  defines "severity \<equiv> dict_get labels (ascii ''severity'') (ascii ''info'')"
  defines "monitor \<equiv> dict_get labels (ascii ''monitor'') (ascii ''unknown'')"
  defines "alert_name \<equiv> dict_get labels (ascii ''alertname'') (ascii ''Alert'')"
  defines "component \<equiv> dict_get labels (ascii ''component'') (ascii ''system'')"
  defines "other \<equiv> filter (\<lambda>(k, v). k \<notin> set [ascii ''alertname'', ascii ''severity'',
                                            ascii ''monitor'', ascii ''component'']) labels"
  shows
    "format_alert_for_discord U now a = Inr
     \<lparr>e_title =
       (if status = ascii ''resolved'' then [0x2705] @ ascii '' RESOLVED''
        else if severity = ascii ''critical'' then [0x1F525] @ ascii '' CRITICAL''
        else if severity = ascii ''warning'' then [0x26A0, 0xFE0F] @ ascii '' WARNING''
        else [0x2139, 0xFE0F] @ ascii '' INFO'') @ ascii '': '' @ alert_name,
    e_description =
       dict_get annotations (ascii ''summary'')
         (ascii ''Alert '' @ alert_name @ ascii '' is '' @ status),
    e_color =
       (if status = ascii ''resolved'' then 0x00FF00
        else if severity = ascii ''critical'' then 0xFF0000
        else if severity = ascii ''warning'' then 0xFFA500
        else 0x00FF00),
    e_fields =
       (if monitor \<noteq> ascii ''unknown''
        then [\<lparr>f_name = ascii ''Monitor'', f_value = monitor, f_inline = True\<rparr>] else []) @
       (if component \<noteq> []
        then [\<lparr>f_name = ascii ''Component'', f_value = component, f_inline = True\<rparr>] else []) @
       [\<lparr>f_name = ascii ''Severity'', f_value = upper U severity, f_inline = True\<rparr>] @
       (case map_of annotations (ascii ''description'') of
          None \<Rightarrow> []
        | Some d \<Rightarrow> if d \<noteq> [] then [\<lparr>f_name = ascii ''Details'', f_value = take 1024 d,
                                      f_inline = False\<rparr>] else []) @
       (case map_of annotations (ascii ''dashboard'') of
          None \<Rightarrow> []
        | Some d \<Rightarrow> if d \<noteq> [] then [\<lparr>f_name = ascii ''Dashboard'',
                                      f_value = ascii ''[View Dashboard]('' @ d @ ascii '')'',
                                      f_inline = False\<rparr>] else []) @
       (if other \<noteq> []
        then [\<lparr>f_name = ascii ''Labels'',
               f_value = take 1024 (join (ascii '', '') (map (\<lambda>(k, v). k @ ascii ''='' @ v) other)),
               f_inline = False\<rparr>] else []),
    e_timestamp = (case a_startsAt a of None \<Rightarrow> now | Some t \<Rightarrow> t)\<rparr>"
  unfolding assms format_alert_for_discord_def
  apply (simp only: COLORS_at sum.case if_Inr if_Pair Let_def[of "join _ _"] fields_append_if)
  apply (simp only: fields_append_always fields_update_case)
  apply (simp only: Let_def sum.case prod.case)
  apply (simp add: slice_to_def split del: if_split cong: if_cong option.case_cong)
  done

lemma format_total: "\<exists>e. format_alert_for_discord U now a = Inr e"
  by (simp add: format_unfold)

section \<open>Colour and title prefix\<close>

text \<open>
  Claim C3. For every alert the formatter returns a card whose colour and title prefix are
  chosen by a strict chain: status \<^verbatim>\<open>resolved\<close> gives the colour
  \<^verbatim>\<open>COLORS['resolved']\<close> and the RESOLVED prefix, whatever the severity; otherwise
  severity \<^verbatim>\<open>critical\<close> gives the critical colour and prefix; otherwise severity
  \<^verbatim>\<open>warning\<close> gives the warning colour and prefix; otherwise the info colour and
  prefix. The status and the severity are read with their defaults.
\<close>

theorem format_color_prefix_priority:
  fixes U now a
  defines "status \<equiv> (case a_status a of None \<Rightarrow> ascii ''firing'' | Some s \<Rightarrow> s)"
  defines "labels \<equiv> (case a_labels a of None \<Rightarrow> [] | Some d \<Rightarrow> d)"
  defines "severity \<equiv> dict_get labels (ascii ''severity'') (ascii ''info'')"
  defines "alert_name \<equiv> dict_get labels (ascii ''alertname'') (ascii ''Alert'')"
  shows "\<exists>e. format_alert_for_discord U now a = Inr e \<and>
     (if status = ascii ''resolved'' then
        dict_getitem COLORS (ascii ''resolved'') = Inr (e_color e) \<and>
        e_title e = [0x2705] @ ascii '' RESOLVED: '' @ alert_name
      else if severity = ascii ''critical'' then
        dict_getitem COLORS (ascii ''critical'') = Inr (e_color e) \<and>
        e_title e = [0x1F525] @ ascii '' CRITICAL: '' @ alert_name
      else if severity = ascii ''warning'' then
        dict_getitem COLORS (ascii ''warning'') = Inr (e_color e) \<and>
        e_title e = [0x26A0, 0xFE0F] @ ascii '' WARNING: '' @ alert_name
      else
        dict_getitem COLORS (ascii ''info'') = Inr (e_color e) \<and>
        e_title e = [0x2139, 0xFE0F] @ ascii '' INFO: '' @ alert_name)"
  unfolding assms by (simp add: format_unfold COLORS_at)

text \<open>
  A resolved alert whose severity is critical: the resolved colour and prefix.
\<close>

theorem format_color_prefix_priority_witness:
  "\<exists>e. format_alert_for_discord plain_table []
          \<lparr>a_status = Some (ascii ''resolved''),
           a_labels = Some [(ascii ''alertname'', ascii ''DiskFull''),
                            (ascii ''severity'', ascii ''critical'')],
           a_annotations = None, a_startsAt = None\<rparr> = Inr e \<and>
       e_color e = 0x00FF00 \<and> e_title e = [0x2705] @ ascii '' RESOLVED: DiskFull''"
  using format_color_prefix_priority [of plain_table "[]"
          "\<lparr>a_status = Some (ascii ''resolved''),
           a_labels = Some [(ascii ''alertname'', ascii ''DiskFull''),
                            (ascii ''severity'', ascii ''critical'')],
           a_annotations = None, a_startsAt = None\<rparr>"]
  by (simp add: COLORS_at dict_get_def)

section \<open>Totality and defaults\<close>

lemma map_of_setdefault:
  "map_of (dict_setdefault d k v) k' =
     (case map_of d k' of Some w \<Rightarrow> Some w | None \<Rightarrow> if k' = k then Some v else None)"
  by (simp add: dict_setdefault_def map_add_def split: option.split)

lemma dict_get_setdefault_same: "dict_get (dict_setdefault d k v) k v = dict_get d k v"
  by (simp add: dict_get_def map_of_setdefault split: option.split)

lemma dict_get_setdefault_other:
  "k' \<noteq> k \<Longrightarrow> dict_get (dict_setdefault d k v) k' w = dict_get d k' w"
  by (simp add: dict_get_def map_of_setdefault split: option.split)

lemma filter_setdefault: "\<not> P (k, v) \<Longrightarrow> filter P (dict_setdefault d k v) = filter P d"
  by (simp add: dict_setdefault_def)

lemma format_with_defaults:
  "format_alert_for_discord U now' (spec_with_defaults now a) = format_alert_for_discord U now a"
  unfolding format_unfold
  by (simp add: spec_with_defaults_def dict_get_setdefault_same dict_get_setdefault_other
      filter_setdefault)

lemma upper_ascii_info: "upper U (ascii ''info'') = ascii ''INFO''"
  by (simp add: upper_def upper_cp_def ascii_def)

lemma upper_ascii_critical: "upper U (ascii ''critical'') = ascii ''CRITICAL''"
  by (simp add: upper_def upper_cp_def ascii_def)

text \<open>
  Claim C4. The formatter is total on alerts whose labels and annotations map strings to
  strings: for every such alert, whatever keys are missing, it returns a card and raises
  nothing. The card is the one of the alert with the documented defaults written in: status
  \<^verbatim>\<open>firing\<close>, severity \<^verbatim>\<open>info\<close>, monitor \<^verbatim>\<open>unknown\<close>, alertname
  \<^verbatim>\<open>Alert\<close>, component \<^verbatim>\<open>system\<close>, and the clock's reading \<open>now\<close> for a
  missing \<^verbatim>\<open>startsAt\<close>.
\<close>

theorem format_total_with_defaults:
  "\<exists>e. format_alert_for_discord U now a = Inr e \<and>
       format_alert_for_discord U now' (spec_with_defaults now a) = Inr e"
  using format_total [of U now a] by (simp add: format_with_defaults)

text \<open>
  The alert with no key at all.
\<close>

theorem format_total_with_defaults_witness:
  "format_alert_for_discord plain_table (ascii ''2024-05-01T12:00:00'')
     \<lparr>a_status = None, a_labels = None, a_annotations = None, a_startsAt = None\<rparr> =
   Inr \<lparr>e_title = [0x2139, 0xFE0F] @ ascii '' INFO: Alert'',
        e_description = ascii ''Alert Alert is firing'',
        e_color = 0x00FF00,
        e_fields =
          [\<lparr>f_name = ascii ''Component'', f_value = ascii ''system'', f_inline = True\<rparr>,
           \<lparr>f_name = ascii ''Severity'', f_value = ascii ''INFO'', f_inline = True\<rparr>],
        e_timestamp = ascii ''2024-05-01T12:00:00''\<rparr>"
proof -
  let ?a = "\<lparr>a_status = None, a_labels = None, a_annotations = None, a_startsAt = None\<rparr>"
  let ?now = "ascii ''2024-05-01T12:00:00''"
  obtain e where e: "format_alert_for_discord plain_table ?now ?a = Inr e"
    "format_alert_for_discord plain_table ?now (spec_with_defaults ?now ?a) = Inr e"
    using format_total_with_defaults [of plain_table ?now ?a ?now] by blast
  have "spec_with_defaults ?now ?a =
      \<lparr>a_status = Some (ascii ''firing''),
       a_labels = Some [(ascii ''severity'', ascii ''info''), (ascii ''monitor'', ascii ''unknown''),
                        (ascii ''alertname'', ascii ''Alert''), (ascii ''component'', ascii ''system'')],
       a_annotations = Some [], a_startsAt = Some ?now\<rparr>"
    by (simp add: spec_with_defaults_def dict_setdefault_def)
  then show ?thesis
    using e by (simp add: format_unfold dict_get_def upper_ascii_info)
qed

section \<open>The description\<close>

text \<open>
  The claim C5 as written fails: a summary that is present and empty is the description,
  and the generated default is not used.
\<close>

theorem format_description_counterexample:
  "format_alert_for_discord plain_table (ascii ''2024-05-01T12:00:00'')
     \<lparr>a_status = Some (ascii ''firing''),
      a_labels = Some [(ascii ''alertname'', ascii ''DiskFull'')],
      a_annotations = Some [(ascii ''summary'', [])], a_startsAt = None\<rparr> =
   Inr \<lparr>e_title = [0x2139, 0xFE0F] @ ascii '' INFO: DiskFull'',
        e_description = [],
        e_color = 0x00FF00,
        e_fields =
          [\<lparr>f_name = ascii ''Component'', f_value = ascii ''system'', f_inline = True\<rparr>,
           \<lparr>f_name = ascii ''Severity'', f_value = ascii ''INFO'', f_inline = True\<rparr>],
        e_timestamp = ascii ''2024-05-01T12:00:00''\<rparr> \<and>
   [] \<noteq> ascii ''Alert DiskFull is firing''"
  by (simp add: format_unfold dict_get_def upper_ascii_info)

text \<open>
  Claim C5, amended. The description is the summary annotation whenever the key is
  present, the empty string included, and the generated default
  \<^verbatim>\<open>Alert <alertname> is <status>\<close> when the key is missing.
\<close>

theorem format_description:
  fixes U now a
  defines "status \<equiv> (case a_status a of None \<Rightarrow> ascii ''firing'' | Some s \<Rightarrow> s)"
  defines "labels \<equiv> (case a_labels a of None \<Rightarrow> [] | Some d \<Rightarrow> d)"
  defines "annotations \<equiv> (case a_annotations a of None \<Rightarrow> [] | Some d \<Rightarrow> d)"
  defines "alert_name \<equiv> dict_get labels (ascii ''alertname'') (ascii ''Alert'')"
  shows "\<exists>e. format_alert_for_discord U now a = Inr e \<and>
     e_description e =
       (case map_of annotations (ascii ''summary'') of
          Some s \<Rightarrow> s
        | None \<Rightarrow> ascii ''Alert '' @ alert_name @ ascii '' is '' @ status)"
  unfolding assms by (simp add: format_unfold dict_get_def split: option.split)

section \<open>The colour table\<close>

text \<open>
  Claim C6. The colour of a card is an entry of the table \<^verbatim>\<open>COLORS\<close>, which has four
  entries, keyed by critical, warning, info and resolved. (The entries of info and of
  resolved hold the same number.)
\<close>

theorem format_color_in_table:
  "\<exists>e k. format_alert_for_discord U now a = Inr e \<and>
     dict_getitem COLORS k = Inr (e_color e) \<and>
     k \<in> set [ascii ''critical'', ascii ''warning'', ascii ''info'', ascii ''resolved''] \<and>
     map fst COLORS = [ascii ''critical'', ascii ''warning'', ascii ''info'', ascii ''resolved''] \<and>
     map snd COLORS = [0xFF0000, 0xFFA500, 0x00FF00, 0x00FF00]"
proof -
  have tab: "map fst COLORS = [ascii ''critical'', ascii ''warning'', ascii ''info'', ascii ''resolved'']"
    "map snd COLORS = [0xFF0000, 0xFFA500, 0x00FF00, 0x00FF00]"
    by (simp_all add: COLORS_def)
  let ?status = "(case a_status a of None \<Rightarrow> ascii ''firing'' | Some s \<Rightarrow> s)"
  let ?severity = "dict_get (case a_labels a of None \<Rightarrow> [] | Some d \<Rightarrow> d) (ascii ''severity'') (ascii ''info'')"
  let ?k = "if ?status = ascii ''resolved'' then ascii ''resolved''
            else if ?severity = ascii ''critical'' then ascii ''critical''
            else if ?severity = ascii ''warning'' then ascii ''warning'' else ascii ''info''"
  obtain e where e: "format_alert_for_discord U now a = Inr e"
    "e_color e = (if ?status = ascii ''resolved'' then 0x00FF00
        else if ?severity = ascii ''critical'' then 0xFF0000
        else if ?severity = ascii ''warning'' then 0xFFA500
        else 0x00FF00)"
    by (simp add: format_unfold)
  have col: "dict_getitem COLORS ?k = Inr (e_color e)"
    using e(2) by (simp add: COLORS_at)
  have mem: "?k \<in> set [ascii ''critical'', ascii ''warning'', ascii ''info'', ascii ''resolved'']"
    by simp
  show ?thesis
  proof (intro exI conjI)
    show "format_alert_for_discord U now a = Inr e" by (rule e(1))
    show "dict_getitem COLORS ?k = Inr (e_color e)" by (rule col)
    show "?k \<in> set [ascii ''critical'', ascii ''warning'', ascii ''info'', ascii ''resolved'']"
      by (rule mem)
  qed (rule tab)+
qed

section \<open>The fields of a card\<close>

text \<open>
  Claim C9. The fields of a card are, in this order: Monitor when the monitor label (with
  its default) is not \<^verbatim>\<open>unknown\<close>; Component when the component is not empty;
  Severity always, in upper case; Details when the description annotation is present and
  not empty, cut to 1024 code points; Dashboard when that annotation is present and not
  empty, as a link labelled View Dashboard; Labels when labels other than alertname,
  severity, monitor and component remain, as \<^verbatim>\<open>k=v\<close> joined by a comma and a space,
  cut to 1024 code points.
\<close>

theorem format_fields_order:
  fixes U now a
  defines "labels \<equiv> (case a_labels a of None \<Rightarrow> [] | Some d \<Rightarrow> d)"
  defines "annotations \<equiv> (case a_annotations a of None \<Rightarrow> [] | Some d \<Rightarrow> d)"
  defines "severity \<equiv> dict_get labels (ascii ''severity'') (ascii ''info'')"
  defines "monitor \<equiv> dict_get labels (ascii ''monitor'') (ascii ''unknown'')"
  defines "component \<equiv> dict_get labels (ascii ''component'') (ascii ''system'')"
  defines "other \<equiv> filter (\<lambda>(k, v). k \<noteq> ascii ''alertname'' \<and> k \<noteq> ascii ''severity'' \<and>
                                   k \<noteq> ascii ''monitor'' \<and> k \<noteq> ascii ''component'') labels"
  shows "\<exists>e. format_alert_for_discord U now a = Inr e \<and>
    e_fields e =
       (if monitor = ascii ''unknown'' then []
        else [\<lparr>f_name = ascii ''Monitor'', f_value = monitor, f_inline = True\<rparr>]) @
       (if component = [] then []
        else [\<lparr>f_name = ascii ''Component'', f_value = component, f_inline = True\<rparr>]) @
       [\<lparr>f_name = ascii ''Severity'', f_value = upper U severity, f_inline = True\<rparr>] @
       (case map_of annotations (ascii ''description'') of
          None \<Rightarrow> []
        | Some d \<Rightarrow> if d = [] then []
                   else [\<lparr>f_name = ascii ''Details'', f_value = take 1024 d, f_inline = False\<rparr>]) @
       (case map_of annotations (ascii ''dashboard'') of
          None \<Rightarrow> []
        | Some d \<Rightarrow> if d = [] then []
                   else [\<lparr>f_name = ascii ''Dashboard'',
                          f_value = ascii ''[View Dashboard]('' @ d @ ascii '')'',
                          f_inline = False\<rparr>]) @
       (if other = [] then []
        else [\<lparr>f_name = ascii ''Labels'',
               f_value = take 1024 (join (ascii '', '') (map (\<lambda>(k, v). k @ ascii ''='' @ v) other)),
               f_inline = False\<rparr>])"
  unfolding assms by (simp add: format_unfold split: option.split)

text \<open>
  An alert with every label and annotation: all six fields.
\<close>

theorem format_fields_order_witness:
  "\<exists>e. format_alert_for_discord plain_table (ascii ''2024-05-01T12:00:00'')
          \<lparr>a_status = Some (ascii ''firing''),
           a_labels = Some [(ascii ''alertname'', ascii ''DiskFull''),
                            (ascii ''instance'', ascii ''db1:9100''),
                            (ascii ''severity'', ascii ''critical''),
                            (ascii ''monitor'', ascii ''node''),
                            (ascii ''job'', ascii ''disks''),
                            (ascii ''component'', ascii ''storage'')],
           a_annotations = Some [(ascii ''summary'', ascii ''Disk at 95%''),
                                 (ascii ''description'', ascii ''Volume /data is filling up''),
                                 (ascii ''dashboard'', ascii ''https://grafana.example/d/1'')],
           a_startsAt = Some (ascii ''2024-04-30T08:00:00Z'')\<rparr> = Inr e \<and>
       e_fields e =
         [\<lparr>f_name = ascii ''Monitor'', f_value = ascii ''node'', f_inline = True\<rparr>,
          \<lparr>f_name = ascii ''Component'', f_value = ascii ''storage'', f_inline = True\<rparr>,
          \<lparr>f_name = ascii ''Severity'', f_value = ascii ''CRITICAL'', f_inline = True\<rparr>,
          \<lparr>f_name = ascii ''Details'', f_value = ascii ''Volume /data is filling up'',
            f_inline = False\<rparr>,
          \<lparr>f_name = ascii ''Dashboard'',
            f_value = ascii ''[View Dashboard](https://grafana.example/d/1)'', f_inline = False\<rparr>,
          \<lparr>f_name = ascii ''Labels'', f_value = ascii ''instance=db1:9100, job=disks'',
            f_inline = False\<rparr>]"
  using format_fields_order [of plain_table "ascii ''2024-05-01T12:00:00''"
          "\<lparr>a_status = Some (ascii ''firing''),
           a_labels = Some [(ascii ''alertname'', ascii ''DiskFull''),
                            (ascii ''instance'', ascii ''db1:9100''),
                            (ascii ''severity'', ascii ''critical''),
                            (ascii ''monitor'', ascii ''node''),
                            (ascii ''job'', ascii ''disks''),
                            (ascii ''component'', ascii ''storage'')],
           a_annotations = Some [(ascii ''summary'', ascii ''Disk at 95%''),
                                 (ascii ''description'', ascii ''Volume /data is filling up''),
                                 (ascii ''dashboard'', ascii ''https://grafana.example/d/1'')],
           a_startsAt = Some (ascii ''2024-04-30T08:00:00Z'')\<rparr>"]
  by (simp add: dict_get_def upper_ascii_critical)

section \<open>The grouping, the two loops and the request\<close>

lemma format_loop_eq:
  "\<exists>cs. format_loop U clock es as = Inr (es @ cs) \<and>
        map Inr cs =
          map (\<lambda>(i, a). format_alert_for_discord U (clock i) a) (enumerate (length es) as)"
proof (induction as arbitrary: es)
  case Nil
  show ?case by simp
next
  case (Cons a as)
  obtain e where e: "format_alert_for_discord U (clock (length es)) a = Inr e"
    using format_total by blast
  obtain cs where cs: "format_loop U clock (es @ [e]) as = Inr ((es @ [e]) @ cs)"
    "map Inr cs =
       map (\<lambda>(i, a). format_alert_for_discord U (clock i) a) (enumerate (length (es @ [e])) as)"
    using Cons.IH [of "es @ [e]"] by blast
  show ?case
    by (rule exI [of _ "e # cs"]) (use e cs in simp)
qed

lemma slice_to_nat: "slice_to xs (int n) = take n xs"
  by (simp add: slice_to_def)

lemma slice_to_rest: "n \<le> 10 \<Longrightarrow> slice_to xs (10 - int n) = take (10 - n) xs"
  by (simp add: slice_to_def nat_diff_distrib')

lemma build_embeds_eq:
  "\<exists>es. build_embeds U clock alerts = Inr es \<and>
     map Inr es =
       map (\<lambda>(i, a). format_alert_for_discord U (clock i) a)
         (enumerate 0
           (take (min 10 (length (firing_of alerts))) (firing_of alerts) @
            take (10 - min 10 (length (firing_of alerts))) (resolved_of alerts)))"
proof -
  let ?F = "firing_of alerts" and ?R = "resolved_of alerts"
  let ?f = "\<lambda>(i, a). format_alert_for_discord U (clock i) a"
  obtain cs1 where cs1: "format_loop U clock [] (take 10 ?F) = Inr cs1"
    "map Inr cs1 = map ?f (enumerate 0 (take 10 ?F))"
    using format_loop_eq [of U clock "[]" "take 10 ?F"] by auto
  have len1: "length cs1 = min 10 (length ?F)"
    using arg_cong [OF cs1(2), of length] by (simp add: min.commute)
  obtain cs2 where cs2: "format_loop U clock cs1 (take (10 - length cs1) ?R) = Inr (cs1 @ cs2)"
    "map Inr cs2 = map ?f (enumerate (length cs1) (take (10 - length cs1) ?R))"
    using format_loop_eq [of U clock cs1 "take (10 - length cs1) ?R"] by auto
  have tk: "take (min 10 (length ?F)) ?F = take 10 ?F"
    by (simp add: min_def)
  have "build_embeds U clock alerts = Inr (cs1 @ cs2)"
    using cs1(1) cs2(1) len1
    by (simp add: build_embeds_def slice_to_nat [of _ 10, simplified] slice_to_rest)
  moreover have "map Inr (cs1 @ cs2) =
      map ?f (enumerate 0 (take (min 10 (length ?F)) ?F @ take (10 - min 10 (length ?F)) ?R))"
  proof -
    have len1': "length (take 10 ?F) = length cs1"
      using arg_cong [OF cs1(2), of length] by simp
    have "map ?f (enumerate 0 (take 10 ?F @ take (10 - length cs1) ?R)) =
          map Inr cs1 @ map Inr cs2"
      unfolding enumerate_append_eq map_append cs1(2) cs2(2) len1' by simp
    then have "map Inr cs1 @ map Inr cs2 =
          map ?f (enumerate 0 (take 10 ?F @ take (10 - length cs1) ?R))"
      by (rule sym)
    then show ?thesis
      by (simp only: tk len1 map_append)
  qed
  ultimately show ?thesis by blast
qed

lemma build_embeds_length:
  assumes "build_embeds U clock alerts = Inr es"
  shows "length es = min 10 (length (firing_of alerts) + length (resolved_of alerts))"
proof -
  obtain es' where es': "build_embeds U clock alerts = Inr es'"
    "map Inr es' =
       map (\<lambda>(i, a). format_alert_for_discord U (clock i) a)
         (enumerate 0
           (take (min 10 (length (firing_of alerts))) (firing_of alerts) @
            take (10 - min 10 (length (firing_of alerts))) (resolved_of alerts)))"
    using build_embeds_eq [of U clock alerts] by blast
  have "es' = es" using assms es'(1) by simp
  moreover have "length es' =
      length (take (min 10 (length (firing_of alerts))) (firing_of alerts) @
              take (10 - min 10 (length (firing_of alerts))) (resolved_of alerts))"
    using arg_cong [OF es'(2), of length] by (simp only: length_map length_enumerate)
  ultimately show ?thesis
    by (simp only: length_append length_take) arith
qed

lemma send_to_discord_nonempty:
  assumes "webhook_url \<noteq> []" and "build_embeds U clock alerts = Inr es" and "es \<noteq> []"
  shows "\<exists>p second.
     send_to_discord U clock net webhook_url alerts =
       (Inr (net webhook_url p = Acknowledged), [HttpPost webhook_url p, second]) \<and>
     p_username p = ascii ''Hall Monitor Alerts'' \<and>
     p_embeds p = es \<and>
     p_content p =
       (if summary_parts (length (firing_of alerts)) (length (resolved_of alerts)) = [] then None
        else Some (join (ascii '' | '')
               (summary_parts (length (firing_of alerts)) (length (resolved_of alerts)))))"
  using assms
  by (cases "summary_parts (length (firing_of alerts)) (length (resolved_of alerts)) = []")
     (auto simp add: send_to_discord_def Let_def split: post_outcome.split)

lemma build_embeds_empty_iff:
  "build_embeds U clock alerts = Inr [] \<longleftrightarrow> firing_of alerts = [] \<and> resolved_of alerts = []"
proof
  assume "build_embeds U clock alerts = Inr []"
  from build_embeds_length [OF this]
  show "firing_of alerts = [] \<and> resolved_of alerts = []" by (simp add: min_def split: if_splits)
next
  assume "firing_of alerts = [] \<and> resolved_of alerts = []"
  then show "build_embeds U clock alerts = Inr []"
    by (simp add: build_embeds_def slice_to_def)
qed

lemma summary_parts_content:
  "(if summary_parts fc rc = [] then None
    else Some (join (ascii '' | '') (summary_parts fc rc))) =
   (if 0 < fc \<and> 0 < rc then
      Some (([0x1F525] @ ascii '' '' @ str_nat fc @
               (if fc = 1 then ascii '' alert firing'' else ascii '' alerts firing'')) @
            ascii '' | '' @ ([0x2705] @ ascii '' '' @ str_nat rc @ ascii '' resolved''))
    else if 0 < fc then
      Some ([0x1F525] @ ascii '' '' @ str_nat fc @
               (if fc = 1 then ascii '' alert firing'' else ascii '' alerts firing''))
    else if 0 < rc then Some ([0x2705] @ ascii '' '' @ str_nat rc @ ascii '' resolved'')
    else None)"
  by (simp add: summary_parts_def)

lemma firing_of_drop:
  "a_status x \<noteq> Some (ascii ''firing'') \<Longrightarrow> firing_of (xs @ x # ys) = firing_of (xs @ ys)"
  by (simp add: firing_of_def)

lemma resolved_of_drop:
  "a_status x \<noteq> Some (ascii ''resolved'') \<Longrightarrow> resolved_of (xs @ x # ys) = resolved_of (xs @ ys)"
  by (simp add: resolved_of_def)

lemma firing_of_batch_12_3:
  "firing_of batch_12_3 =
     map (named_alert ''firing'')
       [''f01'', ''f02'', ''f03'', ''f04'', ''f05'', ''f06'',
        ''f07'', ''f08'', ''f09'', ''f10'', ''f11'', ''f12'']"
  by (simp add: firing_of_def batch_12_3_def named_alert_def)

lemma resolved_of_batch_12_3:
  "resolved_of batch_12_3 = map (named_alert ''resolved'') [''r1'', ''r2'', ''r3'']"
  by (simp add: resolved_of_def batch_12_3_def named_alert_def)

section \<open>The cap of ten cards\<close>

text \<open>
  Claim C2. For every sequence of alerts, let \<open>firing\<close> be the alerts of the input
  whose status is \<^verbatim>\<open>firing\<close> and \<open>resolved\<close> those whose status is
  \<^verbatim>\<open>resolved\<close>, both in the order of the input, and \<open>n\<close> the smaller of 10 and
  the number of firing alerts. The batch of cards is the translation, in order, of the
  first \<open>n\<close> firing alerts followed by the first \<open>10 - n\<close> resolved alerts. It has
  as many cards as that, at most ten, and it is the list of embeds of the request that is
  posted when the destination is configured and the batch is not empty.
\<close>

theorem build_embeds_cap_priority:
  fixes U clock net webhook_url alerts
  defines "firing \<equiv> filter (\<lambda>a. a_status a = Some (ascii ''firing'')) alerts"
  defines "resolved \<equiv> filter (\<lambda>a. a_status a = Some (ascii ''resolved'')) alerts"
  defines "n \<equiv> min 10 (length firing)"
  defines "chosen \<equiv> take n firing @ take (10 - n) resolved"
  shows "\<exists>es. build_embeds U clock alerts = Inr es \<and>
     map Inr es = map (\<lambda>(i, a). format_alert_for_discord U (clock i) a) (enumerate 0 chosen) \<and>
     length es = length chosen \<and>
     length es \<le> 10 \<and>
     (webhook_url \<noteq> [] \<and> es \<noteq> [] \<longrightarrow>
        (\<exists>p rest. snd (send_to_discord U clock net webhook_url alerts) =
                     HttpPost webhook_url p # rest \<and> p_embeds p = es))"
proof -
  have fr: "firing = firing_of alerts" "resolved = resolved_of alerts"
    by (simp_all add: firing_def resolved_def firing_of_def resolved_of_def)
  obtain es where es: "build_embeds U clock alerts = Inr es"
    "map Inr es = map (\<lambda>(i, a). format_alert_for_discord U (clock i) a) (enumerate 0 chosen)"
    unfolding chosen_def n_def fr using build_embeds_eq [of U clock alerts] by blast
  have "length es = length chosen"
    using arg_cong [OF es(2), of length] by (simp only: length_map length_enumerate)
  moreover have "length es \<le> 10"
    using build_embeds_length [OF es(1)] by simp
  moreover have "\<exists>p rest. snd (send_to_discord U clock net webhook_url alerts) =
                     HttpPost webhook_url p # rest \<and> p_embeds p = es"
    if "webhook_url \<noteq> []" "es \<noteq> []"
    using send_to_discord_nonempty [OF that(1) es(1) that(2), of net] by auto
  ultimately show ?thesis using es by blast
qed

text \<open>
  Twelve firing and three resolved alerts give the first ten firing alerts and no resolved
  one; three firing and three resolved alerts give all six, the firing ones first; eight
  firing and four resolved alerts give the eight firing ones followed by the first two
  resolved ones.
\<close>

theorem build_embeds_cap_priority_witness:
  "hook_url \<noteq> [] \<and>
   (\<exists>es. build_embeds plain_table still_clock batch_12_3 = Inr es \<and>
     map Inr es =
       map (\<lambda>(i, a). format_alert_for_discord plain_table (still_clock i) a)
         (enumerate 0
           [named_alert ''firing'' ''f01'', named_alert ''firing'' ''f02'',
            named_alert ''firing'' ''f03'', named_alert ''firing'' ''f04'',
            named_alert ''firing'' ''f05'', named_alert ''firing'' ''f06'',
            named_alert ''firing'' ''f07'', named_alert ''firing'' ''f08'',
            named_alert ''firing'' ''f09'', named_alert ''firing'' ''f10'']) \<and>
     length es = 10 \<and>
     (\<exists>p rest. snd (send_to_discord plain_table still_clock net_ok hook_url batch_12_3) =
                  HttpPost hook_url p # rest \<and> p_embeds p = es)) \<and>
   (\<exists>es. build_embeds plain_table still_clock batch_3_3 = Inr es \<and>
     map Inr es =
       map (\<lambda>(i, a). format_alert_for_discord plain_table (still_clock i) a)
         (enumerate 0
           [named_alert ''firing'' ''f1'', named_alert ''firing'' ''f2'',
            named_alert ''firing'' ''f3'', named_alert ''resolved'' ''r1'',
            named_alert ''resolved'' ''r2'', named_alert ''resolved'' ''r3'']) \<and>
     length es = 6 \<and>
     (\<exists>p rest. snd (send_to_discord plain_table still_clock net_ok hook_url batch_3_3) =
                  HttpPost hook_url p # rest \<and> p_embeds p = es)) \<and>
   (\<exists>es. build_embeds plain_table still_clock batch_8_4 = Inr es \<and>
     map Inr es =
       map (\<lambda>(i, a). format_alert_for_discord plain_table (still_clock i) a)
         (enumerate 0
           [named_alert ''firing'' ''f1'', named_alert ''firing'' ''f2'',
            named_alert ''firing'' ''f3'', named_alert ''firing'' ''f4'',
            named_alert ''firing'' ''f5'', named_alert ''firing'' ''f6'',
            named_alert ''firing'' ''f7'', named_alert ''firing'' ''f8'',
            named_alert ''resolved'' ''r1'', named_alert ''resolved'' ''r2'']) \<and>
     length es = 10 \<and>
     (\<exists>p rest. snd (send_to_discord plain_table still_clock net_ok hook_url batch_8_4) =
                  HttpPost hook_url p # rest \<and> p_embeds p = es))"
proof -
  let ?f = "\<lambda>a. a_status a = Some (ascii ''firing'')"
  let ?r = "\<lambda>a. a_status a = Some (ascii ''resolved'')"
  have u: "hook_url \<noteq> []" by (simp add: hook_url_def)
  have sel1:
    "take (min 10 (length (filter ?f batch_12_3))) (filter ?f batch_12_3) @
     take (10 - min 10 (length (filter ?f batch_12_3))) (filter ?r batch_12_3) =
       [named_alert ''firing'' ''f01'', named_alert ''firing'' ''f02'',
        named_alert ''firing'' ''f03'', named_alert ''firing'' ''f04'',
        named_alert ''firing'' ''f05'', named_alert ''firing'' ''f06'',
        named_alert ''firing'' ''f07'', named_alert ''firing'' ''f08'',
        named_alert ''firing'' ''f09'', named_alert ''firing'' ''f10'']"
    by (simp add: batch_12_3_def named_alert_def)
  have sel2:
    "take (min 10 (length (filter ?f batch_3_3))) (filter ?f batch_3_3) @
     take (10 - min 10 (length (filter ?f batch_3_3))) (filter ?r batch_3_3) =
       [named_alert ''firing'' ''f1'', named_alert ''firing'' ''f2'',
        named_alert ''firing'' ''f3'', named_alert ''resolved'' ''r1'',
        named_alert ''resolved'' ''r2'', named_alert ''resolved'' ''r3'']"
    by (simp add: batch_3_3_def named_alert_def)
  have sel3:
    "take (min 10 (length (filter ?f batch_8_4))) (filter ?f batch_8_4) @
     take (10 - min 10 (length (filter ?f batch_8_4))) (filter ?r batch_8_4) =
       [named_alert ''firing'' ''f1'', named_alert ''firing'' ''f2'',
        named_alert ''firing'' ''f3'', named_alert ''firing'' ''f4'',
        named_alert ''firing'' ''f5'', named_alert ''firing'' ''f6'',
        named_alert ''firing'' ''f7'', named_alert ''firing'' ''f8'',
        named_alert ''resolved'' ''r1'', named_alert ''resolved'' ''r2'']"
    by (simp add: batch_8_4_def named_alert_def)
  obtain es1 where es1: "build_embeds plain_table still_clock batch_12_3 = Inr es1"
    "map Inr es1 =
       map (\<lambda>(i, a). format_alert_for_discord plain_table (still_clock i) a)
         (enumerate 0
           (take (min 10 (length (filter ?f batch_12_3))) (filter ?f batch_12_3) @
            take (10 - min 10 (length (filter ?f batch_12_3))) (filter ?r batch_12_3)))"
    "length es1 =
       length (take (min 10 (length (filter ?f batch_12_3))) (filter ?f batch_12_3) @
               take (10 - min 10 (length (filter ?f batch_12_3))) (filter ?r batch_12_3))"
    "hook_url \<noteq> [] \<and> es1 \<noteq> [] \<longrightarrow>
       (\<exists>p rest. snd (send_to_discord plain_table still_clock net_ok hook_url batch_12_3) =
                    HttpPost hook_url p # rest \<and> p_embeds p = es1)"
    using build_embeds_cap_priority [of plain_table still_clock batch_12_3 hook_url net_ok]
    by blast
  have len1: "length es1 = 10"
    using es1(3) unfolding sel1 by simp
  then have "es1 \<noteq> []" by auto
  then have post1:
    "\<exists>p rest. snd (send_to_discord plain_table still_clock net_ok hook_url batch_12_3) =
                 HttpPost hook_url p # rest \<and> p_embeds p = es1"
    using es1(4) u by simp
  note map1 = es1(2) [unfolded sel1]
  obtain es2 where es2: "build_embeds plain_table still_clock batch_3_3 = Inr es2"
    "map Inr es2 =
       map (\<lambda>(i, a). format_alert_for_discord plain_table (still_clock i) a)
         (enumerate 0
           (take (min 10 (length (filter ?f batch_3_3))) (filter ?f batch_3_3) @
            take (10 - min 10 (length (filter ?f batch_3_3))) (filter ?r batch_3_3)))"
    "length es2 =
       length (take (min 10 (length (filter ?f batch_3_3))) (filter ?f batch_3_3) @
               take (10 - min 10 (length (filter ?f batch_3_3))) (filter ?r batch_3_3))"
    "hook_url \<noteq> [] \<and> es2 \<noteq> [] \<longrightarrow>
       (\<exists>p rest. snd (send_to_discord plain_table still_clock net_ok hook_url batch_3_3) =
                    HttpPost hook_url p # rest \<and> p_embeds p = es2)"
    using build_embeds_cap_priority [of plain_table still_clock batch_3_3 hook_url net_ok]
    by blast
  have len2: "length es2 = 6"
    using es2(3) unfolding sel2 by simp
  then have "es2 \<noteq> []" by auto
  then have post2:
    "\<exists>p rest. snd (send_to_discord plain_table still_clock net_ok hook_url batch_3_3) =
                 HttpPost hook_url p # rest \<and> p_embeds p = es2"
    using es2(4) u by simp
  note map2 = es2(2) [unfolded sel2]
  obtain es3 where es3: "build_embeds plain_table still_clock batch_8_4 = Inr es3"
    "map Inr es3 =
       map (\<lambda>(i, a). format_alert_for_discord plain_table (still_clock i) a)
         (enumerate 0
           (take (min 10 (length (filter ?f batch_8_4))) (filter ?f batch_8_4) @
            take (10 - min 10 (length (filter ?f batch_8_4))) (filter ?r batch_8_4)))"
    "length es3 =
       length (take (min 10 (length (filter ?f batch_8_4))) (filter ?f batch_8_4) @
               take (10 - min 10 (length (filter ?f batch_8_4))) (filter ?r batch_8_4))"
    "hook_url \<noteq> [] \<and> es3 \<noteq> [] \<longrightarrow>
       (\<exists>p rest. snd (send_to_discord plain_table still_clock net_ok hook_url batch_8_4) =
                    HttpPost hook_url p # rest \<and> p_embeds p = es3)"
    using build_embeds_cap_priority [of plain_table still_clock batch_8_4 hook_url net_ok]
    by blast
  have len3: "length es3 = 10"
    using es3(3) unfolding sel3 by simp
  then have "es3 \<noteq> []" by auto
  then have post3:
    "\<exists>p rest. snd (send_to_discord plain_table still_clock net_ok hook_url batch_8_4) =
                 HttpPost hook_url p # rest \<and> p_embeds p = es3"
    using es3(4) u by simp
  note map3 = es3(2) [unfolded sel3]
  show ?thesis
  proof (intro conjI)
    show "hook_url \<noteq> []" by (rule u)
  qed (intro exI [of _ es1] exI [of _ es2] exI [of _ es3] conjI es1(1) es2(1) es3(1)
        map1 map2 map3 len1 len2 len3 post1 post2 post3)+
qed

section \<open>The empty batch\<close>

text \<open>
  Claim C7. With a destination configured, when the grouping and translation of the alerts
  gives no card, the function returns \<^verbatim>\<open>True\<close> and does nothing to the outside: no
  request is posted and nothing is printed.
\<close>

theorem send_to_discord_empty_batch:
  assumes "webhook_url \<noteq> []" and "build_embeds U clock alerts = Inr []"
  shows "send_to_discord U clock net webhook_url alerts = (Inr True, [])"
  using assms by (simp add: send_to_discord_def)

text \<open>
  The empty list of alerts.
\<close>

theorem send_to_discord_empty_batch_witness:
  "hook_url \<noteq> [] \<and> build_embeds plain_table still_clock [] = Inr [] \<and>
   send_to_discord plain_table still_clock net_ok hook_url [] = (Inr True, [])"
proof -
  have u: "hook_url \<noteq> []" by (simp add: hook_url_def)
  have b: "build_embeds plain_table still_clock [] = Inr []"
    by (simp add: build_embeds_def firing_of_def resolved_of_def slice_to_def)
  show ?thesis
    using u b send_to_discord_empty_batch [OF u b, of net_ok] by simp
qed

section \<open>The summary line\<close>

text \<open>
  Claim C8. For a batch that is not empty, the request that is posted carries the batch
  and the summary line: with \<open>fc\<close> firing and \<open>rc\<close> resolved alerts in the input,
  the firing part is the fire glyph, the number and \<^verbatim>\<open>alert firing\<close>, with
  \<^verbatim>\<open>alerts\<close> for every number but 1; the resolved part is the check glyph, the number
  and \<^verbatim>\<open>resolved\<close>; a part is present when its count is positive, two parts are
  joined by \<^verbatim>\<open> | \<close>, and the key is not set when both counts are zero.
\<close>

theorem send_to_discord_summary_line:
  fixes U clock net webhook_url alerts es
  defines "fc \<equiv> length (firing_of alerts)"
  defines "rc \<equiv> length (resolved_of alerts)"
  defines "firing_part \<equiv>
     [0x1F525] @ ascii '' '' @ str_nat fc @
       (if fc = 1 then ascii '' alert firing'' else ascii '' alerts firing'')"
  defines "resolved_part \<equiv> [0x2705] @ ascii '' '' @ str_nat rc @ ascii '' resolved''"
  assumes "webhook_url \<noteq> []" and "build_embeds U clock alerts = Inr es" and "es \<noteq> []"
  shows "\<exists>p rest.
     snd (send_to_discord U clock net webhook_url alerts) = HttpPost webhook_url p # rest \<and>
     p_embeds p = es \<and>
     p_content p =
       (if 0 < fc \<and> 0 < rc then Some (firing_part @ ascii '' | '' @ resolved_part)
        else if 0 < fc then Some firing_part
        else if 0 < rc then Some resolved_part
        else None)"
proof -
  obtain p second where p:
    "send_to_discord U clock net webhook_url alerts =
       (Inr (net webhook_url p = Acknowledged), [HttpPost webhook_url p, second])"
    "p_embeds p = es"
    "p_content p =
       (if summary_parts fc rc = [] then None
        else Some (join (ascii '' | '') (summary_parts fc rc)))"
    unfolding fc_def rc_def
    using send_to_discord_nonempty [OF assms(5-7), of net] by blast
  show ?thesis
    unfolding firing_part_def resolved_part_def
    using p(1,2) p(3) [unfolded summary_parts_content] by (intro exI [of _ p] exI [of _ "[second]"]) simp
qed

text \<open>
  Two firing alerts and one resolved alert.
\<close>

theorem send_to_discord_summary_line_witness:
  "hook_url \<noteq> [] \<and>
   (\<exists>es p rest.
      build_embeds plain_table still_clock
        [named_alert ''firing'' ''A'', named_alert ''resolved'' ''B'',
         named_alert ''firing'' ''C''] = Inr es \<and> es \<noteq> [] \<and>
      snd (send_to_discord plain_table still_clock net_ok hook_url
        [named_alert ''firing'' ''A'', named_alert ''resolved'' ''B'',
         named_alert ''firing'' ''C'']) = HttpPost hook_url p # rest \<and>
      p_embeds p = es \<and>
      p_content p = Some ([0x1F525] @ ascii '' 2 alerts firing | '' @ [0x2705] @
                          ascii '' 1 resolved''))"
proof -
  let ?alerts = "[named_alert ''firing'' ''A'', named_alert ''resolved'' ''B'',
         named_alert ''firing'' ''C'']"
  have u: "hook_url \<noteq> []" by (simp add: hook_url_def)
  have F: "firing_of ?alerts = [named_alert ''firing'' ''A'', named_alert ''firing'' ''C'']"
    by (simp add: firing_of_def named_alert_def)
  have R: "resolved_of ?alerts = [named_alert ''resolved'' ''B'']"
    by (simp add: resolved_of_def named_alert_def)
  obtain es where es: "build_embeds plain_table still_clock ?alerts = Inr es"
    using build_embeds_eq [of plain_table still_clock ?alerts] by blast
  have ne: "es \<noteq> []"
    using build_embeds_length [OF es] by (auto simp add: F R)
  have d: "str_nat (Suc (Suc 0)) = ascii ''2''" "str_nat (Suc 0) = ascii ''1''"
    by (simp_all add: str_nat.simps ascii_def)
  show ?thesis
    using u es ne send_to_discord_summary_line [OF u es ne, of net_ok]
    by (simp add: F R d)
qed

text \<open>
  The counts of the summary line are those of the whole input, not of the batch: twelve
  firing and three resolved alerts are announced with the ten cards of the firing ones.
\<close>

lemma str_nat_12: "str_nat 12 = ascii ''12''"
  by (simp add: str_nat.simps ascii_def)

lemma str_nat_3: "str_nat 3 = ascii ''3''"
  by (simp add: str_nat.simps ascii_def)

lemma summary_counts_whole_input:
  "\<exists>p second.
     send_to_discord plain_table still_clock net_ok hook_url batch_12_3 =
       (Inr True, [HttpPost hook_url p, second]) \<and>
     length (p_embeds p) = 10 \<and>
     p_content p = Some ([0x1F525] @ ascii '' 12 alerts firing | '' @ [0x2705] @
                         ascii '' 3 resolved'')"
proof -
  have u: "hook_url \<noteq> []" by (simp add: hook_url_def)
  obtain es where es: "build_embeds plain_table still_clock batch_12_3 = Inr es"
    using build_embeds_eq [of plain_table still_clock batch_12_3] by blast
  have len: "length es = 10"
    using build_embeds_length [OF es]
    by (simp add: firing_of_batch_12_3 resolved_of_batch_12_3)
  then have ne: "es \<noteq> []" by auto
  have fc: "length (firing_of batch_12_3) = 12" and rc: "length (resolved_of batch_12_3) = 3"
    by (simp_all add: firing_of_batch_12_3 resolved_of_batch_12_3)
  show ?thesis
    using send_to_discord_nonempty [OF u es ne, of net_ok] len
    unfolding summary_parts_content fc rc
    by (auto simp add: str_nat_12 str_nat_3 net_ok_def)
qed

section \<open>Alerts with another status\<close>

text \<open>
  Claim C10. An alert whose status is missing, or is neither \<^verbatim>\<open>firing\<close> nor
  \<^verbatim>\<open>resolved\<close>, changes nothing in a dispatch: the result, the requests, the batch
  and both counts are those of the input without it. The formatter applied to it does
  return a card, with the title, colour, fields and timestamp of the same alert with status
  \<^verbatim>\<open>firing\<close>, and the very same card when the status is missing.
\<close>

theorem send_to_discord_skips_other_status:
  assumes "a_status x \<noteq> Some (ascii ''firing'')" and "a_status x \<noteq> Some (ascii ''resolved'')"
  shows "send_to_discord U clock net webhook_url (xs @ x # ys) =
           send_to_discord U clock net webhook_url (xs @ ys) \<and>
         build_embeds U clock (xs @ x # ys) = build_embeds U clock (xs @ ys) \<and>
         length (firing_of (xs @ x # ys)) = length (firing_of (xs @ ys)) \<and>
         length (resolved_of (xs @ x # ys)) = length (resolved_of (xs @ ys)) \<and>
         (\<exists>e e'. format_alert_for_discord U now x = Inr e \<and>
            format_alert_for_discord U now (x\<lparr>a_status := Some (ascii ''firing'')\<rparr>) = Inr e' \<and>
            e_title e = e_title e' \<and> e_color e = e_color e' \<and> e_fields e = e_fields e' \<and>
            e_timestamp e = e_timestamp e' \<and>
            (a_status x = None \<longrightarrow> e = e'))"
proof -
  note drop = firing_of_drop [OF assms(1)] resolved_of_drop [OF assms(2)]
  have b: "build_embeds U clock (xs @ x # ys) = build_embeds U clock (xs @ ys)"
    by (simp add: build_embeds_def drop)
  have s: "send_to_discord U clock net webhook_url (xs @ x # ys) =
           send_to_discord U clock net webhook_url (xs @ ys)"
    unfolding send_to_discord_def drop b by (rule refl)
  have nr: "(case a_status x of None \<Rightarrow> ascii ''firing'' | Some s \<Rightarrow> s) \<noteq> ascii ''resolved''"
    using assms(2) by (cases "a_status x") auto
  have f: "\<exists>e e'. format_alert_for_discord U now x = Inr e \<and>
            format_alert_for_discord U now (x\<lparr>a_status := Some (ascii ''firing'')\<rparr>) = Inr e' \<and>
            e_title e = e_title e' \<and> e_color e = e_color e' \<and> e_fields e = e_fields e' \<and>
            e_timestamp e = e_timestamp e' \<and>
            (a_status x = None \<longrightarrow> e = e')"
    unfolding format_unfold using nr by simp
  show ?thesis using b s f drop by simp
qed

text \<open>
  An alert without status between a firing and a resolved one.
\<close>

theorem send_to_discord_skips_other_status_witness:
  "a_status \<lparr>a_status = None, a_labels = Some [(ascii ''alertname'', ascii ''Lost'')],
             a_annotations = None, a_startsAt = None\<rparr> \<noteq> Some (ascii ''firing'') \<and>
   a_status \<lparr>a_status = None, a_labels = Some [(ascii ''alertname'', ascii ''Lost'')],
             a_annotations = None, a_startsAt = None\<rparr> \<noteq> Some (ascii ''resolved'') \<and>
   send_to_discord plain_table still_clock net_ok hook_url
     [named_alert ''firing'' ''A'',
      \<lparr>a_status = None, a_labels = Some [(ascii ''alertname'', ascii ''Lost'')],
       a_annotations = None, a_startsAt = None\<rparr>,
      named_alert ''resolved'' ''B''] =
   send_to_discord plain_table still_clock net_ok hook_url
     [named_alert ''firing'' ''A'', named_alert ''resolved'' ''B''] \<and>
   (\<exists>e. format_alert_for_discord plain_table (still_clock 0)
           \<lparr>a_status = None, a_labels = Some [(ascii ''alertname'', ascii ''Lost'')],
            a_annotations = None, a_startsAt = None\<rparr> = Inr e \<and>
        format_alert_for_discord plain_table (still_clock 0)
           \<lparr>a_status = Some (ascii ''firing''),
            a_labels = Some [(ascii ''alertname'', ascii ''Lost'')],
            a_annotations = None, a_startsAt = None\<rparr> = Inr e \<and>
        e_description e = ascii ''Alert Lost is firing'')"
proof -
  let ?x = "\<lparr>a_status = None, a_labels = Some [(ascii ''alertname'', ascii ''Lost'')],
             a_annotations = None, a_startsAt = None\<rparr>"
  have h: "a_status ?x \<noteq> Some (ascii ''firing'')" "a_status ?x \<noteq> Some (ascii ''resolved'')"
    by simp_all
  have d: "\<And>e. format_alert_for_discord plain_table (still_clock 0) ?x = Inr e \<Longrightarrow>
     e_description e = ascii ''Alert Lost is firing''"
    by (auto simp add: format_unfold dict_get_def)
  show ?thesis
    using h d
      send_to_discord_skips_other_status [OF h, of plain_table still_clock net_ok hook_url
        "[named_alert ''firing'' ''A'']" "[named_alert ''resolved'' ''B'']" "still_clock 0"]
    by auto
qed

section \<open>The length of field values\<close>

lemma long_text_length: "length long_text = 1025"
  by (simp add: long_text_def)

lemma long_text_not_unknown: "long_text \<noteq> ascii ''unknown''"
proof
  assume "long_text = ascii ''unknown''"
  then have "length long_text = length (ascii ''unknown'')" by simp
  then show False by (simp add: long_text_length)
qed

text \<open>
  The values of Details and Labels are cut to 1024 code points.
\<close>

lemma format_details_labels_truncated:
  assumes "format_alert_for_discord U now a = Inr e" and "f \<in> set (e_fields e)"
    and "f_name f = ascii ''Details'' \<or> f_name f = ascii ''Labels''"
  shows "length (f_value f) \<le> 1024"
proof -
  let ?labels = "case a_labels a of None \<Rightarrow> [] | Some d \<Rightarrow> d"
  let ?annotations = "case a_annotations a of None \<Rightarrow> [] | Some d \<Rightarrow> d"
  define M where "M =
    (if dict_get ?labels (ascii ''monitor'') (ascii ''unknown'') \<noteq> ascii ''unknown''
     then [\<lparr>f_name = ascii ''Monitor'',
            f_value = dict_get ?labels (ascii ''monitor'') (ascii ''unknown''),
            f_inline = True\<rparr>] else [])"
  define C where "C =
    (if dict_get ?labels (ascii ''component'') (ascii ''system'') \<noteq> []
     then [\<lparr>f_name = ascii ''Component'',
            f_value = dict_get ?labels (ascii ''component'') (ascii ''system''),
            f_inline = True\<rparr>] else [])"
  define S where "S =
    \<lparr>f_name = ascii ''Severity'',
     f_value = upper U (dict_get ?labels (ascii ''severity'') (ascii ''info'')),
     f_inline = True\<rparr>"
  define D where "D =
    (case map_of ?annotations (ascii ''description'') of
       None \<Rightarrow> []
     | Some d \<Rightarrow> if d \<noteq> [] then [\<lparr>f_name = ascii ''Details'', f_value = take 1024 d,
                                   f_inline = False\<rparr>] else [])"
  define B where "B =
    (case map_of ?annotations (ascii ''dashboard'') of
       None \<Rightarrow> []
     | Some d \<Rightarrow> if d \<noteq> [] then [\<lparr>f_name = ascii ''Dashboard'',
                                   f_value = ascii ''[View Dashboard]('' @ d @ ascii '')'',
                                   f_inline = False\<rparr>] else [])"
  define other where "other =
    filter (\<lambda>(k, v). k \<notin> set [ascii ''alertname'', ascii ''severity'',
                                ascii ''monitor'', ascii ''component'']) ?labels"
  define L where "L =
    (if other \<noteq> []
     then [\<lparr>f_name = ascii ''Labels'',
            f_value = take 1024 (join (ascii '', '') (map (\<lambda>(k, v). k @ ascii ''='' @ v) other)),
            f_inline = False\<rparr>] else [])"
  have "e_fields e = M @ C @ [S] @ D @ B @ L"
    using assms(1) unfolding format_unfold M_def C_def S_def D_def B_def L_def other_def
    by (simp only: sum.inject [symmetric] embed.simps append_Cons append_Nil) auto
  then have "f \<in> set M \<or> f \<in> set C \<or> f = S \<or> f \<in> set D \<or> f \<in> set B \<or> f \<in> set L"
    using assms(2) by auto
  moreover have "f_name f = ascii ''Monitor''" if "f \<in> set M"
    using that by (simp add: M_def split: if_splits)
  moreover have "f_name f = ascii ''Component''" if "f \<in> set C"
    using that by (simp add: C_def split: if_splits)
  moreover have "f_name S = ascii ''Severity''"
    by (simp add: S_def)
  moreover have "length (f_value f) \<le> 1024" if "f \<in> set D"
    using that by (auto simp add: D_def split: if_splits option.splits)
  moreover have "f_name f = ascii ''Dashboard''" if "f \<in> set B"
    using that by (auto simp add: B_def split: if_splits option.splits)
  moreover have "length (f_value f) \<le> 1024" if "f \<in> set L"
    using that by (auto simp add: L_def split: if_splits)
  ultimately show ?thesis
    using assms(3) by auto
qed

text \<open>
  Claim C1 says that the value of every field, Monitor included, has at most 1024 code
  points. The formatter cuts Details and Labels only: here a monitor label of 1025 code
  points is the value of the Monitor field, uncut.
\<close>

theorem format_monitor_not_truncated:
  "format_alert_for_discord plain_table (ascii ''2024-05-01T12:00:00'')
     \<lparr>a_status = Some (ascii ''firing''),
      a_labels = Some [(ascii ''alertname'', ascii ''DiskFull''), (ascii ''monitor'', long_text)],
      a_annotations = None, a_startsAt = None\<rparr> =
   Inr \<lparr>e_title = [0x2139, 0xFE0F] @ ascii '' INFO: DiskFull'',
        e_description = ascii ''Alert DiskFull is firing'',
        e_color = 0x00FF00,
        e_fields =
          [\<lparr>f_name = ascii ''Monitor'', f_value = long_text, f_inline = True\<rparr>,
           \<lparr>f_name = ascii ''Component'', f_value = ascii ''system'', f_inline = True\<rparr>,
           \<lparr>f_name = ascii ''Severity'', f_value = ascii ''INFO'', f_inline = True\<rparr>],
        e_timestamp = ascii ''2024-05-01T12:00:00''\<rparr> \<and>
   length long_text = 1025"
  by (simp add: format_unfold dict_get_def upper_ascii_info long_text_length long_text_not_unknown)

end
